theory Spec2Isabelle
  imports Main "HOL-Library.AList"
begin

section \<open>JavaScript values\<close>

text \<open>
  The node modal (\<^verbatim>\<open>src/features/modals/NodeModal/index.tsx\<close>) works on the values
  of a parsed document and on the rows of the selected graph node. The values are the
  ones JSON has, plus \<^verbatim>\<open>undefined\<close>, which the code tests for and which a read of a
  missing property yields.

  Conventions of the model:
  \<^item> a string is a list of 8-bit characters; text outside ASCII is outside the model;
  \<^item> an object is the list of its own properties in creation order; an array is the list
    of its elements (a hole reads as \<^verbatim>\<open>undefined\<close>, and the code cannot tell the two
    apart) together with its own non-index properties;
  \<^item> property access sees own properties only: a key that names a member an object or an
    array inherits (\<^verbatim>\<open>constructor\<close>, \<^verbatim>\<open>toString\<close>, \<^verbatim>\<open>__proto__\<close>, \<^verbatim>\<open>map\<close>)
    or the \<^verbatim>\<open>length\<close> of an array is treated as a data key by \<open>getProp\<close> and
    \<open>setProp\<close>. The general theorems about paths and merges therefore assume keys
    that are no such names (\<open>builtin_member\<close>); the assignment on the object literal
    of \<^verbatim>\<open>normalizeNodeData\<close> models the \<^verbatim>\<open>__proto__\<close> setter;
  \<^item> a parsed document is a tree: no two places of it share an object;
  \<^item> a finite number is a decimal fraction \<open>m / 10 ^ k\<close>, held exactly: the rounding of
    IEEE 754 doubles is not modelled, so the model agrees with the engine on the decimal
    literals a double holds exactly as printed (up to 15 significant digits, in range).
\<close>

datatype jsnum = NaN | PosInfinity | NegInfinity | Dec int nat

datatype jsval =
    JUndefined
  | JNull
  | JBool bool
  | JNum jsnum
  | JStr string
  | JArr "jsval list" "(string \<times> jsval) list"
  | JObj "(string \<times> jsval) list"

datatype js_error =
    TypeError
  | ConverterError string

subsection \<open>Decimal digits\<close>

definition is_digit :: "char \<Rightarrow> bool" where
  "is_digit c = (48 \<le> (of_char c :: nat) \<and> (of_char c :: nat) \<le> 57)"

definition digit_val :: "char \<Rightarrow> nat" where
  "digit_val c = of_char c - 48"

definition digits_val :: "string \<Rightarrow> nat" where
  "digits_val s = foldl (\<lambda>acc c. 10 * acc + digit_val c) 0 s"

definition digit_char :: "nat \<Rightarrow> char" where
  "digit_char d = ''0123456789abcdef'' ! d"

fun show_nat :: "nat \<Rightarrow> string" where
  "show_nat n = (if n < 10 then [digit_char n] else show_nat (n div 10) @ [digit_char (n mod 10)])"

declare show_nat.simps [simp del]

subsection \<open>Numbers: \<^verbatim>\<open>Number(text)\<close> and \<^verbatim>\<open>String(number)\<close>\<close>

text \<open>
  \<^verbatim>\<open>Number(s)\<close> on a string is ECMAScript's StringToNumber: white space is trimmed, the
  empty string is 0, and the rest must be a StringNumericLiteral (a signed decimal
  literal with optional fraction and exponent, a signed \<^verbatim>\<open>Infinity\<close>, or an unsigned
  hexadecimal, octal or binary integer); anything else is \<^verbatim>\<open>NaN\<close>.
\<close>

definition is_ws :: "char \<Rightarrow> bool" where
  "is_ws c = ((of_char c :: nat) \<in> {9, 10, 11, 12, 13, 32})"

definition trim :: "string \<Rightarrow> string" where
  "trim s = rev (dropWhile is_ws (rev (dropWhile is_ws s)))"

fun norm_dec :: "int \<Rightarrow> nat \<Rightarrow> jsnum" where
  "norm_dec m k = (if k = 0 \<or> m mod 10 \<noteq> 0 then Dec m k else norm_dec (m div 10) (k - 1))"

declare norm_dec.simps [simp del]

definition scale_dec :: "int \<Rightarrow> int \<Rightarrow> jsnum" where
  "scale_dec m e = (if 0 \<le> e then Dec (m * 10 ^ nat e) 0 else norm_dec m (nat (- e)))"

definition split_sign :: "string \<Rightarrow> bool \<times> string" where
  "split_sign s =
     (case s of
        c # r \<Rightarrow> if c = CHR ''-'' then (True, r) else if c = CHR ''+'' then (False, r) else (False, s)
      | [] \<Rightarrow> (False, s))"

definition parse_exponent :: "string \<Rightarrow> int option" where
  "parse_exponent s =
     (case s of
        [] \<Rightarrow> Some 0
      | c # r \<Rightarrow>
          if c = CHR ''e'' \<or> c = CHR ''E'' then
            (let (neg, ds) = split_sign r in
             if ds \<noteq> [] \<and> list_all is_digit ds
             then Some (if neg then - int (digits_val ds) else int (digits_val ds))
             else None)
          else None)"

definition parse_unsigned_decimal :: "string \<Rightarrow> jsnum option" where
  "parse_unsigned_decimal s =
     (let ip = takeWhile is_digit s;
          r1 = dropWhile is_digit s;
          fp = (case r1 of c # r \<Rightarrow> if c = CHR ''.'' then takeWhile is_digit r else [] | [] \<Rightarrow> []);
          r2 = (case r1 of c # r \<Rightarrow> if c = CHR ''.'' then dropWhile is_digit r else r1 | [] \<Rightarrow> [])
      in if ip = [] \<and> fp = [] then None
         else (case parse_exponent r2 of
                 None \<Rightarrow> None
               | Some e \<Rightarrow> Some (scale_dec (int (digits_val (ip @ fp))) (e - int (length fp)))))"

definition negate :: "jsnum \<Rightarrow> jsnum" where
  "negate x = (case x of NaN \<Rightarrow> NaN | PosInfinity \<Rightarrow> NegInfinity
                 | NegInfinity \<Rightarrow> PosInfinity | Dec m k \<Rightarrow> Dec (- m) k)"

definition parse_decimal :: "string \<Rightarrow> jsnum" where
  "parse_decimal s =
     (let (neg, body) = split_sign s;
          r = (if body = ''Infinity'' then Some PosInfinity else parse_unsigned_decimal body)
      in case r of None \<Rightarrow> NaN | Some x \<Rightarrow> if neg then negate x else x)"

definition radix_digit :: "char \<Rightarrow> nat option" where
  "radix_digit c =
     (let n = (of_char c :: nat) in
      if 48 \<le> n \<and> n \<le> 57 then Some (n - 48)
      else if 97 \<le> n \<and> n \<le> 102 then Some (n - 87)
      else if 65 \<le> n \<and> n \<le> 70 then Some (n - 55)
      else None)"

definition parse_radix :: "nat \<Rightarrow> string \<Rightarrow> jsnum" where
  "parse_radix b ds =
     (if ds \<noteq> [] \<and> list_all (\<lambda>c. case radix_digit c of None \<Rightarrow> False | Some d \<Rightarrow> d < b) ds
      then Dec (int (foldl (\<lambda>acc c. b * acc + (case radix_digit c of None \<Rightarrow> 0 | Some d \<Rightarrow> d)) 0 ds)) 0
      else NaN)"

definition Number :: "string \<Rightarrow> jsnum" where
  "Number text =
     (let s = trim text in
      if s = [] then Dec 0 0
      else if take 2 s = ''0x'' \<or> take 2 s = ''0X'' then parse_radix 16 (drop 2 s)
      else if take 2 s = ''0o'' \<or> take 2 s = ''0O'' then parse_radix 8 (drop 2 s)
      else if take 2 s = ''0b'' \<or> take 2 s = ''0B'' then parse_radix 2 (drop 2 s)
      else parse_decimal s)"

text \<open>
  \<^verbatim>\<open>String(x)\<close> on a number is ECMAScript's Number::toString in radix 10: with \<open>ds\<close> the
  significant digits and \<open>n\<close> the position of the decimal point after them, plain digits
  for \<open>0 < n \<le> 21\<close>, a leading \<^verbatim>\<open>0.\<close> for \<open>-6 < n \<le> 0\<close>, exponent notation otherwise.
\<close>

definition show_finite :: "nat \<Rightarrow> nat \<Rightarrow> string" where
  "show_finite a k =
     (let ds0 = show_nat a;
          z = length (takeWhile (\<lambda>c. c = CHR ''0'') (rev ds0));
          ds = take (length ds0 - z) ds0;
          k' = int (length ds);
          n = k' + int z - int k
      in if k' \<le> n \<and> n \<le> 21 then ds @ replicate (nat (n - k')) CHR ''0''
         else if 0 < n \<and> n \<le> 21 then take (nat n) ds @ ''.'' @ drop (nat n) ds
         else if - 6 < n \<and> n \<le> 0 then ''0.'' @ replicate (nat (- n)) CHR ''0'' @ ds
         else (let e = n - 1;
                   es = (if e < 0 then ''-'' else ''+'') @ show_nat (nat \<bar>e\<bar>)
               in if k' = 1 then ds @ ''e'' @ es
                  else take 1 ds @ ''.'' @ drop 1 ds @ ''e'' @ es))"

definition Number_toString :: "jsnum \<Rightarrow> string" where
  "Number_toString x =
     (case x of
        NaN \<Rightarrow> ''NaN''
      | PosInfinity \<Rightarrow> ''Infinity''
      | NegInfinity \<Rightarrow> ''-Infinity''
      | Dec m k \<Rightarrow>
          if m = 0 then ''0''
          else if m < 0 then ''-'' @ show_finite (nat (- m)) k
          else show_finite (nat m) k)"

subsection \<open>Property access\<close>

text \<open>
  A property key is a string; a number used as a key is converted to its decimal text. An
  array index is a canonical decimal numeral below \<open>2^32 - 1\<close>. Reading a property of
  \<^verbatim>\<open>undefined\<close> or \<^verbatim>\<open>null\<close> throws a TypeError; reading a missing property
  yields \<^verbatim>\<open>undefined\<close>. The file is an ES module, hence strict code: assigning to a
  property of a primitive throws a TypeError as well.
\<close>

definition is_array_index :: "string \<Rightarrow> bool" where
  "is_array_index k =
     (k \<noteq> [] \<and> list_all is_digit k \<and> (k = ''0'' \<or> hd k \<noteq> CHR ''0'') \<and> digits_val k < 4294967295)"

definition lookup :: "(string \<times> jsval) list \<Rightarrow> string \<Rightarrow> jsval" where
  "lookup ps k = (case map_of ps k of None \<Rightarrow> JUndefined | Some v \<Rightarrow> v)"

fun getProp :: "jsval \<Rightarrow> string \<Rightarrow> js_error + jsval" where
  "getProp JUndefined k = Inl TypeError"
| "getProp JNull k = Inl TypeError"
| "getProp (JBool b) k = Inr JUndefined"
| "getProp (JNum n) k = Inr JUndefined"
| "getProp (JStr s) k =
     Inr (if is_array_index k \<and> digits_val k < length s then JStr [s ! digits_val k] else JUndefined)"
| "getProp (JArr es ps) k =
     Inr (if is_array_index k
          then (if digits_val k < length es then es ! digits_val k else JUndefined)
          else lookup ps k)"
| "getProp (JObj ps) k = Inr (lookup ps k)"

fun setProp :: "jsval \<Rightarrow> string \<Rightarrow> jsval \<Rightarrow> js_error + jsval" where
  "setProp (JObj ps) k v = Inr (JObj (AList.update k v ps))"
| "setProp (JArr es ps) k v =
     Inr (if is_array_index k
          then (if digits_val k < length es then JArr (es[digits_val k := v]) ps
                else JArr (es @ replicate (digits_val k - length es) JUndefined @ [v]) ps)
          else JArr es (AList.update k v ps))"
| "setProp JUndefined k v = Inl TypeError"
| "setProp JNull k v = Inl TypeError"
| "setProp (JBool b) k v = Inl TypeError"
| "setProp (JNum n) k v = Inl TypeError"
| "setProp (JStr s) k v = Inl TypeError"

text \<open>
  The code reaches into the parsed document through a reference (\<^verbatim>\<open>parent\<close>,
  \<^verbatim>\<open>cur\<close>) and assigns through it. The document is a tree, so the assignment changes
  the document at the place the reference was read from and nowhere else:
  \<open>replace_own\<close> stores the changed child back under the key it was read from. It only
  replaces a property that is there: a value read from a primitive or a missing property
  is no reference, and nothing is stored back.
\<close>

fun replace_own :: "jsval \<Rightarrow> string \<Rightarrow> jsval \<Rightarrow> jsval" where
  "replace_own (JObj ps) k v = (if map_of ps k = None then JObj ps else JObj (AList.update k v ps))"
| "replace_own (JArr es ps) k v =
     (if is_array_index k
      then (if digits_val k < length es then JArr (es[digits_val k := v]) ps else JArr es ps)
      else (if map_of ps k = None then JArr es ps else JArr es (AList.update k v ps)))"
| "replace_own x k v = x"

subsection \<open>\<^verbatim>\<open>String(x)\<close>, template literals and \<^verbatim>\<open>Array.prototype.join\<close>\<close>

fun join :: "string \<Rightarrow> string list \<Rightarrow> string" where
  "join sep [] = []"
| "join sep [x] = x"
| "join sep (x # y # ys) = x @ sep @ join sep (y # ys)"

fun ToString :: "jsval \<Rightarrow> string" where
  "ToString JUndefined = ''undefined''"
| "ToString JNull = ''null''"
| "ToString (JBool b) = (if b then ''true'' else ''false'')"
| "ToString (JNum n) = Number_toString n"
| "ToString (JStr s) = s"
| "ToString (JArr es ps) =
     join '','' (map (\<lambda>e. if e = JUndefined \<or> e = JNull then [] else ToString e) es)"
| "ToString (JObj ps) = ''[object Object]''"

subsection \<open>\<^verbatim>\<open>JSON.stringify(x, null, 2)\<close>\<close>

text \<open>
  SerializeJSONProperty with a gap of two spaces. A property whose value is
  \<^verbatim>\<open>undefined\<close> is left out of an object, an \<^verbatim>\<open>undefined\<close> array element is
  written \<^verbatim>\<open>null\<close>, and \<^verbatim>\<open>JSON.stringify(undefined)\<close> is \<^verbatim>\<open>undefined\<close> (here
  \<open>None\<close>). \<^verbatim>\<open>NaN\<close> and the infinities are written \<^verbatim>\<open>null\<close>. The own keys of an
  object are enumerated with the array indices first, ascending, then the other keys in
  creation order. The non-index properties of an array are not written.
\<close>

definition dq :: char where
  "dq = CHR 0x22"

definition nl :: char where
  "nl = CHR 0x0A"

definition escape_char :: "char \<Rightarrow> string" where
  "escape_char c =
     (let n = (of_char c :: nat) in
      if n = 34 then [CHR 0x5C, CHR 0x22]
      else if n = 92 then [CHR 0x5C, CHR 0x5C]
      else if n = 8 then [CHR 0x5C, CHR ''b'']
      else if n = 12 then [CHR 0x5C, CHR ''f'']
      else if n = 10 then [CHR 0x5C, CHR ''n'']
      else if n = 13 then [CHR 0x5C, CHR ''r'']
      else if n = 9 then [CHR 0x5C, CHR ''t'']
      else if n < 32 then [CHR 0x5C, CHR ''u'', CHR ''0'', CHR ''0'', digit_char (n div 16), digit_char (n mod 16)]
      else [c])"

definition JSON_quote :: "string \<Rightarrow> string" where
  "JSON_quote s = dq # concat (map escape_char s) @ [dq]"

definition own_order :: "(string \<times> 'a) list \<Rightarrow> (string \<times> 'a) list" where
  "own_order ps =
     sort_key (\<lambda>p. digits_val (fst p)) (filter (\<lambda>p. is_array_index (fst p)) ps)
     @ filter (\<lambda>p. \<not> is_array_index (fst p)) ps"

definition brackets :: "string \<Rightarrow> char \<Rightarrow> char \<Rightarrow> string list \<Rightarrow> string" where
  "brackets ind l r items =
     (if items = [] then [l, r]
      else [l, nl] @ ind @ ''  '' @ join ([CHR '','', nl] @ ind @ ''  '') items @ [nl] @ ind @ [r])"

fun ser :: "string \<Rightarrow> jsval \<Rightarrow> string" where
  "ser ind JUndefined = ''null''"
| "ser ind JNull = ''null''"
| "ser ind (JBool b) = (if b then ''true'' else ''false'')"
| "ser ind (JNum n) = (case n of Dec m k \<Rightarrow> Number_toString n | _ \<Rightarrow> ''null'')"
| "ser ind (JStr s) = JSON_quote s"
| "ser ind (JArr es ps) = brackets ind CHR ''['' CHR '']'' (map (ser (ind @ ''  '')) es)"
| "ser ind (JObj ps) =
     brackets ind CHR ''{'' CHR ''}''
       (map (\<lambda>p. JSON_quote (fst p) @ '': '' @ snd p)
          (own_order (map (\<lambda>p. (fst p, ser (ind @ ''  '') (snd p)))
                        (filter (\<lambda>p. snd p \<noteq> JUndefined) ps))))"

definition JSON_stringify :: "jsval \<Rightarrow> string option" where
  "JSON_stringify x = (if x = JUndefined then None else Some (ser [] x))"

section \<open>The node modal\<close>

subsection \<open>Data\<close>

text \<open>
  A node of the graph (\<^verbatim>\<open>NodeData\<close>) carries the rows it displays
  (\<^verbatim>\<open>NodeData["text"]\<close>) and the JSON path of the value it stands for. A row has a
  key (\<^verbatim>\<open>null\<close> for a node that is a single value), the value as the parser read
  it, and the name of its type (\<^verbatim>\<open>"string"\<close>, \<^verbatim>\<open>"number"\<close>,
  \<^verbatim>\<open>"boolean"\<close>, \<^verbatim>\<open>"null"\<close>, \<^verbatim>\<open>"array"\<close>, \<^verbatim>\<open>"object"\<close>). A path
  segment is a number (an array index) or a string (an object key). The modal keeps its
  own copy of the rows it edits (\<^verbatim>\<open>fields\<close>), whose values are text.
\<close>

datatype seg = SegNum nat | SegStr string

record NodeRow =
  row_key :: "string option"
  row_value :: jsval
  row_type :: string

record NodeData =
  node_text :: "NodeRow list"
  node_path :: "seg list option"

record Field =
  key :: "string option"
  fvalue :: string
  ftype :: string

datatype toast = ToastSuccess string | ToastError string

text \<open>
  The state the modal reads and writes: the selected node of the graph store, its own
  React state (\<^verbatim>\<open>editing\<close>, \<^verbatim>\<open>fields\<close>), the text and format of the file store
  (\<^verbatim>\<open>getContents\<close>, \<^verbatim>\<open>getFormat\<close>, \<^verbatim>\<open>setContents\<close>), and what it has shown
  (\<^verbatim>\<open>toast\<close>) and logged (\<^verbatim>\<open>console.error\<close>) so far.
\<close>

record ModalState =
  nodeData :: "NodeData option"
  editing :: bool
  fields_state :: "Field list"
  contents :: string
  format :: string
  toasts :: "toast list"
  console :: "js_error list"

text \<open>
  The format converters \<^verbatim>\<open>contentToJson\<close> and \<^verbatim>\<open>jsonToContent\<close> of
  \<^verbatim>\<open>lib/utils/jsonAdapter\<close> are parameters: each takes a text and a format and either
  returns or throws. \<^verbatim>\<open>jsonToContent\<close> is given what \<^verbatim>\<open>JSON.stringify\<close> returned.
\<close>

record Converters =
  contentToJson :: "string \<Rightarrow> string \<Rightarrow> js_error + jsval"
  jsonToContent :: "string option \<Rightarrow> string \<Rightarrow> js_error + string"

text \<open>A key is truthy when it is neither \<^verbatim>\<open>null\<close> nor the empty string.\<close>

definition truthy :: "string option \<Rightarrow> bool" where
  "truthy k = (case k of None \<Rightarrow> False | Some s \<Rightarrow> s \<noteq> [])"

definition key_of :: "string option \<Rightarrow> string" where
  "key_of k = (case k of None \<Rightarrow> ''null'' | Some s \<Rightarrow> s)"

text \<open>The property key of a segment: a number is converted by \<^verbatim>\<open>String(number)\<close>.\<close>

definition seg_key :: "seg \<Rightarrow> string" where
  "seg_key sg = (case sg of SegNum n \<Rightarrow> Number_toString (Dec (int n) 0) | SegStr s \<Rightarrow> s)"

subsection \<open>\<^verbatim>\<open>normalizeNodeData\<close> and \<^verbatim>\<open>jsonPathToString\<close>\<close>

text \<open>
  The assignment \<^verbatim>\<open>obj[k] = v\<close> on an object the code made with the literal
  \<^verbatim>\<open>{}\<close>. The object is the pair of its own properties and whether its prototype has
  become \<^verbatim>\<open>null\<close>. The key \<^verbatim>\<open>__proto__\<close> is an accessor the object inherits: as long
  as the object neither owns that key nor has lost its prototype, assigning to it
  creates no own property, and assigning \<^verbatim>\<open>null\<close> removes the prototype. Every other
  assignment creates or updates an own property.
\<close>

definition assign_literal ::
  "(string \<times> jsval) list \<times> bool \<Rightarrow> string \<Rightarrow> jsval \<Rightarrow> (string \<times> jsval) list \<times> bool" where
  "assign_literal obj k v =
     (if k = ''__proto__'' \<and> \<not> snd obj \<and> map_of (fst obj) k = None
      then (fst obj, v = JNull)
      else (AList.update k v (fst obj), snd obj))"

definition normalizeNodeData :: "NodeRow list \<Rightarrow> string" where
  "normalizeNodeData nodeRows =
     (if length nodeRows = 0 then ''{}''
      else if length nodeRows = 1 \<and> \<not> truthy (row_key (nodeRows ! 0))
        then ToString (row_value (nodeRows ! 0))
      else ser []
        (JObj (fst (foldl (\<lambda>obj row.
                 if row_type row \<noteq> ''array'' \<and> row_type row \<noteq> ''object''
                 then (if truthy (row_key row)
                       then assign_literal obj (key_of (row_key row)) (row_value row)
                       else obj)
                 else obj) ([], False) nodeRows))))"

definition jsonPathToString :: "seg list option \<Rightarrow> string" where
  "jsonPathToString path =
     (case path of
        None \<Rightarrow> ''$''
      | Some p \<Rightarrow>
          if length p = 0 then ''$''
          else ''$['' @ join ''][''
                 (map (\<lambda>sg. case sg of SegNum n \<Rightarrow> Number_toString (Dec (int n) 0)
                                      | SegStr s \<Rightarrow> dq # s @ [dq]) p) @ '']'')"

subsection \<open>Selecting, editing and cancelling\<close>

definition initial_fields :: "NodeData option \<Rightarrow> Field list" where
  "initial_fields nd =
     (let rows = (case nd of None \<Rightarrow> [] | Some n \<Rightarrow> node_text n) in
      map (\<lambda>r. \<lparr> key = row_key r,
                 fvalue = (if row_value r = JNull \<or> row_value r = JUndefined then []
                           else ToString (row_value r)),
                 ftype = row_type r \<rparr>)
          (filter (\<lambda>r. row_type r \<noteq> ''array'' \<and> row_type r \<noteq> ''object'') rows))"

text \<open>The effect that runs when the selected node changes or the modal opens or closes.\<close>

definition resetOnNodeChange :: "ModalState \<Rightarrow> ModalState" where
  "resetOnNodeChange st = st\<lparr> editing := False, fields_state := initial_fields (nodeData st) \<rparr>"

definition handleEdit :: "ModalState \<Rightarrow> ModalState" where
  "handleEdit st = st\<lparr> editing := True \<rparr>"

definition handleCancel :: "ModalState \<Rightarrow> ModalState" where
  "handleCancel st = st\<lparr> fields_state := initial_fields (nodeData st), editing := False \<rparr>"

definition handleChange :: "int \<Rightarrow> string \<Rightarrow> ModalState \<Rightarrow> ModalState" where
  "handleChange index v st =
     st\<lparr> fields_state := map (\<lambda>(i, f). if int i = index then f\<lparr> fvalue := v \<rparr> else f)
                        (enumerate 0 (fields_state st)) \<rparr>"

subsection \<open>\<^verbatim>\<open>setAtPath\<close>\<close>

text \<open>
  The loop of \<^verbatim>\<open>setAtPath\<close> as a recursion on the rest of the path: \<open>cur\<close> is the
  container the loop stands on, and the result is \<open>cur\<close> after the assignments made
  through it. \<^verbatim>\<open>setAtPath\<close> itself returns the pair of the object as the call leaves
  it and the value the call returns: for the empty path the object is untouched and the
  new value is returned.
\<close>

definition is_number_seg :: "seg \<Rightarrow> bool" where
  "is_number_seg sg = (case sg of SegNum n \<Rightarrow> True | SegStr s \<Rightarrow> False)"

fun setAtPath_loop :: "jsval \<Rightarrow> seg list \<Rightarrow> jsval \<Rightarrow> js_error + jsval" where
  "setAtPath_loop cur [] v = Inr cur"
| "setAtPath_loop cur [lst] v = setProp cur (seg_key lst) v"
| "setAtPath_loop cur (sg # nxt # rest) v =
     (case getProp cur (seg_key sg) of
        Inl e \<Rightarrow> Inl e
      | Inr child \<Rightarrow>
          (case (if child = JUndefined
                 then (let fresh = (if is_number_seg nxt then JArr [] [] else JObj []) in
                       case setProp cur (seg_key sg) fresh of
                         Inl e \<Rightarrow> Inl e
                       | Inr cur' \<Rightarrow> Inr (cur', fresh))
                 else Inr (cur, child)) of
             Inl e \<Rightarrow> Inl e
           | Inr (cur', child') \<Rightarrow>
               (case setAtPath_loop child' (nxt # rest) v of
                  Inl e \<Rightarrow> Inl e
                | Inr child'' \<Rightarrow> Inr (replace_own cur' (seg_key sg) child''))))"

definition setAtPath :: "jsval \<Rightarrow> seg list \<Rightarrow> jsval \<Rightarrow> js_error + (jsval \<times> jsval)" where
  "setAtPath obj path v =
     (if length path = 0 then Inr (obj, v)
      else (case setAtPath_loop obj path v of
              Inl e \<Rightarrow> Inl e
            | Inr obj' \<Rightarrow> Inr (obj', obj')))"

subsection \<open>\<^verbatim>\<open>handleSave\<close>\<close>

text \<open>The value a field is stored as (lines 101-104 and 111-114).\<close>

definition coerce :: "Field \<Rightarrow> jsval" where
  "coerce f =
     (let newVal = JStr (fvalue f);
          newVal = (if ftype f = ''number'' then JNum (Number (fvalue f)) else newVal);
          newVal = (if ftype f = ''boolean'' then JBool (fvalue f = ''true'') else newVal);
          newVal = (if ftype f = ''null'' then JNull else newVal)
      in newVal)"

text \<open>The loop \<^verbatim>\<open>for (const seg of target) parent = parent[seg]\<close>.\<close>

fun resolve_parent :: "jsval \<Rightarrow> seg list \<Rightarrow> js_error + jsval" where
  "resolve_parent parent [] = Inr parent"
| "resolve_parent parent (sg # rest) =
     (case getProp parent (seg_key sg) of
        Inl e \<Rightarrow> Inl e
      | Inr p \<Rightarrow> resolve_parent p rest)"

text \<open>The loop \<^verbatim>\<open>fields.forEach(...)\<close>: the result is \<open>parent\<close> after the assignments.\<close>

fun merge_fields :: "jsval \<Rightarrow> Field list \<Rightarrow> js_error + jsval" where
  "merge_fields parent [] = Inr parent"
| "merge_fields parent (f # fs) =
     (if truthy (key f)
      then (case setProp parent (key_of (key f)) (coerce f) of
              Inl e \<Rightarrow> Inl e
            | Inr parent' \<Rightarrow> merge_fields parent' fs)
      else merge_fields parent fs)"

text \<open>The document after \<open>parent\<close>, read at \<open>target\<close>, has become \<open>parent'\<close>.\<close>

fun store_back :: "jsval \<Rightarrow> seg list \<Rightarrow> jsval \<Rightarrow> jsval" where
  "store_back json [] parent' = parent'"
| "store_back json (sg # rest) parent' =
     (case getProp json (seg_key sg) of
        Inl e \<Rightarrow> json
      | Inr child \<Rightarrow> replace_own json (seg_key sg) (store_back child rest parent'))"

text \<open>
  Lines 90-116: what the edit does to the parsed document \<open>json\<close>. The result is the
  document afterwards, or the exception thrown.
\<close>

definition apply_edit :: "NodeData \<Rightarrow> Field list \<Rightarrow> jsval \<Rightarrow> js_error + jsval" where
  "apply_edit nd fs json =
     (if length (node_text nd) > 1
         \<or> (length (node_text nd) = 1 \<and> truthy (row_key (node_text nd ! 0)))
      then
        (let target = (case node_path nd of
                         None \<Rightarrow> []
                       | Some p \<Rightarrow> if length p > 0 then p else [])
         in case resolve_parent json target of
              Inl e \<Rightarrow> Inl e
            | Inr parent \<Rightarrow>
                (case merge_fields parent fs of
                   Inl e \<Rightarrow> Inl e
                 | Inr parent' \<Rightarrow> Inr (store_back json target parent')))
      else
        (case fs of
           [] \<Rightarrow> Inl TypeError
         | f # rest \<Rightarrow>
             (case setAtPath json (case node_path nd of None \<Rightarrow> [] | Some p \<Rightarrow> p) (coerce f) of
                Inl e \<Rightarrow> Inl e
              | Inr (json', returned) \<Rightarrow> Inr json')))"

text \<open>The body of the \<^verbatim>\<open>try\<close> block up to the text handed to \<^verbatim>\<open>setContents\<close>.\<close>

definition save_steps :: "Converters \<Rightarrow> NodeData \<Rightarrow> ModalState \<Rightarrow> js_error + string" where
  "save_steps cv nd st =
     (case contentToJson cv (contents st) (format st) of
        Inl e \<Rightarrow> Inl e
      | Inr json \<Rightarrow>
          (case apply_edit nd (fields_state st) json of
             Inl e \<Rightarrow> Inl e
           | Inr json' \<Rightarrow> jsonToContent cv (JSON_stringify json') (format st)))"

definition handleSave :: "Converters \<Rightarrow> ModalState \<Rightarrow> ModalState" where
  "handleSave cv st =
     (case nodeData st of
        None \<Rightarrow> st
      | Some nd \<Rightarrow>
          (case save_steps cv nd st of
             Inr contentStr \<Rightarrow>
               st\<lparr> contents := contentStr, editing := False,
                   toasts := toasts st @ [ToastSuccess ''Saved changes''] \<rparr>
           | Inl err \<Rightarrow>
               st\<lparr> console := console st @ [err],
                   toasts := toasts st @ [ToastError ''Failed to save changes''] \<rparr>))"

section \<open>The specification's path format, and a session to run\<close>

text \<open>
  The path formatter as the specification words it, to compare with the code's: an integer
  segment is written bare, as its decimal numeral.
\<close>

definition format_by_spec :: "seg list \<Rightarrow> string" where
  "format_by_spec path =
     ''$'' @ concat (map (\<lambda>sg. ''['' @ (case sg of SegNum n \<Rightarrow> show_nat n
                                            | SegStr s \<Rightarrow> dq # s @ [dq]) @ '']'') path)"

text \<open>
  The specification's scenario: the document \<^verbatim>\<open>{"customer": {"name": "Ann", "age": 30}}\<close>
  in a JSON file, with the node at \<^verbatim>\<open>["customer"]\<close> selected. For the format
  \<^verbatim>\<open>json\<close> the converters parse the text and hand the serialized text back as it is;
  \<open>json_converters\<close> does so on the one text it knows the parse of.
\<close>

definition customer_text :: string where
  \<open>customer_text = ''{"customer": {"name": "Ann", "age": 30}}''\<close>

definition customer_doc :: jsval where
  "customer_doc =
     JObj [(''customer'', JObj [(''name'', JStr ''Ann''), (''age'', JNum (Dec 30 0))])]"

definition customer_node :: NodeData where
  "customer_node =
     \<lparr> node_text = [\<lparr> row_key = Some ''name'', row_value = JStr ''Ann'', row_type = ''string'' \<rparr>,
                    \<lparr> row_key = Some ''age'', row_value = JNum (Dec 30 0), row_type = ''number'' \<rparr>],
       node_path = Some [SegStr ''customer''] \<rparr>"

definition customer_session :: ModalState where
  "customer_session =
     \<lparr> nodeData = Some customer_node, editing = False, fields_state = [],
       contents = customer_text, format = ''json'', toasts = [], console = [] \<rparr>"

definition json_converters :: "string \<Rightarrow> jsval \<Rightarrow> Converters" where
  "json_converters known_text doc =
     \<lparr> contentToJson = (\<lambda>c f. if c = known_text then Inr doc
                                else Inl (ConverterError ''not the text of the scenario'')),
       jsonToContent = (\<lambda>s f. case s of None \<Rightarrow> Inl (ConverterError ''undefined'')
                                       | Some t \<Rightarrow> Inr t) \<rparr>"

definition customer_converters :: Converters where
  "customer_converters = json_converters customer_text customer_doc"




text \<open>
  A number segment is safe when it is an integer a double holds exactly (below
  \<open>2^53\<close>), as every array index is. A segment is plain when it is safe and, if a
  string, names no inherited member. A field is plain when its key names none.
\<close>

definition safe_segment :: "seg \<Rightarrow> bool" where
  "safe_segment sg = (case sg of SegNum n \<Rightarrow> n < 9007199254740992 | SegStr s \<Rightarrow> True)"






definition is_container :: "jsval \<Rightarrow> bool" where
  "is_container c = (case c of JObj ps \<Rightarrow> True | JArr es ps \<Rightarrow> True | _ \<Rightarrow> False)"



text \<open>A run of \<^verbatim>\<open>handleChange\<close> calls, one per pair of an index and a text.\<close>

fun apply_changes :: "(int \<times> string) list \<Rightarrow> ModalState \<Rightarrow> ModalState" where
  "apply_changes [] st = st"
| "apply_changes (c # cs) st = apply_changes cs (handleChange (fst c) (snd c) st)"


section \<open>Properties\<close>

subsection \<open>Decimal digits\<close>

lemma digit_char_table:
  "list_all (\<lambda>d. digit_val (digit_char d) = d \<and> is_digit (digit_char d)) [0, 1, 2, 3, 4, 5, 6, 7, 8, 9]"
  by (simp add: digit_char_def digit_val_def is_digit_def)

lemma digit_char_cases:
  assumes "d < 10"
  shows "digit_val (digit_char d) = d \<and> is_digit (digit_char d)"
proof -
  have "d \<in> set [0, 1, 2, 3, 4, 5, 6, 7, 8, 9]"
    using assms by (simp add: eval_nat_numeral less_Suc_eq)
  with digit_char_table show ?thesis
    unfolding list_all_iff by blast
qed

lemma digits_val_snoc: "digits_val (ds @ [c]) = 10 * digits_val ds + digit_val c"
  by (simp add: digits_val_def)

text \<open>\<open>show_nat\<close> writes the decimal numeral of its argument.\<close>

lemma digits_val_show_nat: "digits_val (show_nat n) = n"
proof (induction n rule: show_nat.induct)
  case (1 n)
  show ?case
  proof (cases "n < 10")
    case True
    then show ?thesis
      using digit_char_cases [of n] by (simp add: show_nat.simps [of n] digits_val_def)
  next
    case False
    have "n mod 10 < 10" by simp
    with False 1 show ?thesis
      using digit_char_cases [of "n mod 10"]
      by (simp add: show_nat.simps [of n] digits_val_snoc)
  qed
qed

lemma show_nat_digits: "list_all is_digit (show_nat n)"
proof (induction n rule: show_nat.induct)
  case (1 n)
  show ?case
  proof (cases "n < 10")
    case True
    then show ?thesis
      using digit_char_cases [of n] by (simp add: show_nat.simps [of n])
  next
    case False
    have "n mod 10 < 10" by simp
    with False 1 show ?thesis
      using digit_char_cases [of "n mod 10"]
      by (simp add: show_nat.simps [of n])
  qed
qed

lemma show_nat_nonempty: "show_nat n \<noteq> []"
  by (subst show_nat.simps) simp

lemma show_nat_zero: "show_nat 0 = ''0''"
  by (simp add: show_nat.simps digit_char_def)



lemma length_show_nat: "n < 10 ^ k \<Longrightarrow> 0 < k \<Longrightarrow> length (show_nat n) \<le> k"
proof (induction n arbitrary: k rule: show_nat.induct)
  case (1 n)
  show ?case
  proof (cases "n < 10")
    case True
    with "1.prems" show ?thesis by (simp add: show_nat.simps [of n])
  next
    case False
    obtain j where k: "k = Suc j" using "1.prems"(2) by (cases k) auto
    have "j \<noteq> 0"
    proof
      assume "j = 0"
      with k "1.prems"(1) have "n < 10" by simp
      with False show False by simp
    qed
    moreover have "n div 10 < 10 ^ j"
      using "1.prems"(1) k by (simp add: less_mult_imp_div_less mult.commute)
    ultimately have "length (show_nat (n div 10)) \<le> j"
      using False "1.IH" by simp
    with False k show ?thesis by (simp add: show_nat.simps [of n])
  qed
qed

lemma strip_trailing:
  "take (length xs - length (takeWhile (\<lambda>x. x = c) (rev xs))) xs
     @ replicate (length (takeWhile (\<lambda>x. x = c) (rev xs))) c = xs"
proof -
  let ?t = "takeWhile (\<lambda>x. x = c) (rev xs)" and ?d = "dropWhile (\<lambda>x. x = c) (rev xs)"
  have split: "xs = rev ?d @ rev ?t"
    by (metis rev_append rev_rev_ident takeWhile_dropWhile_id)
  have "\<forall>x \<in> set ?t. x = c"
    by (auto dest: set_takeWhileD)
  then have same: "replicate (length ?t) c = ?t"
    by (rule replicate_length_same)
  then have "rev ?t = replicate (length ?t) c"
    by (metis rev_replicate)
  moreover have "length xs - length ?t = length (rev ?d)"
    using split by (metis add_diff_cancel_right' length_append length_rev)
  then have "take (length xs - length ?t) xs = rev ?d"
    using split by (metis append_eq_conv_conj)
  ultimately show ?thesis using split by simp
qed

text \<open>
  \<^verbatim>\<open>String(n)\<close> of a natural number below \<open>10^21\<close> is its decimal numeral. So the
  key of a safe number segment is its numeral.
\<close>

lemma Number_toString_nat:
  assumes "n < 10 ^ 21"
  shows "Number_toString (Dec (int n) 0) = show_nat n"
proof (cases "n = 0")
  case True
  then show ?thesis by (simp add: Number_toString_def show_nat_zero)
next
  case False
  let ?ds0 = "show_nat n"
  let ?z = "length (takeWhile (\<lambda>c. c = CHR ''0'') (rev ?ds0))"
  have short: "length ?ds0 \<le> 21"
    using assms by (intro length_show_nat) simp_all
  have fewer: "?z \<le> length ?ds0"
    by (metis length_rev length_takeWhile_le)
  have "show_finite n 0 = take (length ?ds0 - ?z) ?ds0 @ replicate ?z CHR ''0''"
    using short fewer by (simp add: show_finite_def Let_def)
  also have "\<dots> = ?ds0" by (rule strip_trailing)
  finally show ?thesis using False by (simp add: Number_toString_def)
qed


subsection \<open>The path formatter\<close>

lemma join_brackets:
  "xs \<noteq> [] \<Longrightarrow> ''['' @ join '']['' xs @ '']'' = concat (map (\<lambda>x. ''['' @ x @ '']'') xs)"
  by (induction "''][''" xs rule: join.induct) auto

text \<open>
  Claim C6. \<^verbatim>\<open>jsonPathToString\<close> has no failure case: an absent or empty path is
  written \<^verbatim>\<open>$\<close>, and any other path is \<^verbatim>\<open>$\<close> followed by each segment in order in
  brackets, a string segment in double quotes and an integer segment bare, as its decimal
  numeral, which is the format of the specification. The integer segments are the
  non-negative integers a double holds exactly (below \<open>2^53\<close>): the code writes a number
  by \<^verbatim>\<open>String(number)\<close>, which is the numeral for these. The path
  \<^verbatim>\<open>["a", 2, "b"]\<close> is written \<^verbatim>\<open>$["a"][2]["b"]\<close>.
\<close>

theorem jsonPathToString_format:
  \<open>jsonPathToString None = ''$''
   \<and> jsonPathToString (Some []) = ''$''
   \<and> (list_all safe_segment path \<longrightarrow> jsonPathToString (Some path) = format_by_spec path)
   \<and> jsonPathToString (Some [SegStr ''a'', SegNum 2, SegStr ''b'']) = ''$["a"][2]["b"]''\<close>
proof -
  have general: "jsonPathToString (Some p) = format_by_spec p" if safe: "list_all safe_segment p" for p
  proof (cases "p = []")
    case True
    then show ?thesis by (simp add: jsonPathToString_def format_by_spec_def)
  next
    case False
    let ?code = "\<lambda>sg. case sg of SegNum n \<Rightarrow> Number_toString (Dec (int n) 0) | SegStr s \<Rightarrow> dq # s @ [dq]"
    let ?spec = "\<lambda>sg. case sg of SegNum n \<Rightarrow> show_nat n | SegStr s \<Rightarrow> dq # s @ [dq]"
    have "?code sg = ?spec sg" if "sg \<in> set p" for sg
    proof (cases sg)
      case (SegNum n)
      then have "n < 9007199254740992"
        using safe that by (auto simp: list_all_iff safe_segment_def)
      then show ?thesis using SegNum by (simp add: Number_toString_nat)
    next
      case (SegStr s)
      then show ?thesis by simp
    qed
    then have same: "map ?code p = map ?spec p" by simp
    have "''['' @ join '']['' (map ?spec p) @ '']''
        = concat (map (\<lambda>x. ''['' @ x @ '']'') (map ?spec p))"
      using False by (intro join_brackets) simp
    then have "''$['' @ join '']['' (map ?code p) @ '']'' = format_by_spec p"
      unfolding same by (simp add: format_by_spec_def comp_def)
    with False show ?thesis
      by (simp add: jsonPathToString_def)
  qed
  have example: \<open>format_by_spec [SegStr ''a'', SegNum 2, SegStr ''b''] = ''$["a"][2]["b"]''\<close>
    by (simp add: format_by_spec_def show_nat.simps digit_char_def dq_def)
  have "list_all safe_segment [SegStr ''a'', SegNum 2, SegStr ''b'']"
    by (simp add: safe_segment_def)
  then have example_path: \<open>jsonPathToString (Some [SegStr ''a'', SegNum 2, SegStr ''b'']) = ''$["a"][2]["b"]''\<close>
    using general example by simp
  have none: "jsonPathToString None = ''$''"
    by (simp add: jsonPathToString_def)
  have empty: "jsonPathToString (Some []) = ''$''"
    by (simp add: jsonPathToString_def)
  from none empty general [of path] example_path
  show ?thesis by blast
qed

theorem jsonPathToString_format_witness:
  \<open>jsonPathToString (Some [SegNum 0, SegStr ''id'', SegNum 4294967294])
     = ''$[0]["id"][4294967294]''\<close>
  using jsonPathToString_format [of "[SegNum 0, SegStr ''id'', SegNum 4294967294]"]
  by (simp add: safe_segment_def format_by_spec_def show_nat.simps digit_char_def dq_def)


subsection \<open>Evaluation\<close>

text \<open>The equations that evaluate the model on a concrete input.\<close>

lemmas number_eval = Number_def Number_toString_def show_finite_def show_nat.simps digit_char_def
  trim_def is_ws_def parse_decimal_def split_sign_def parse_unsigned_decimal_def is_digit_def
  parse_exponent_def scale_dec_def digits_val_def digit_val_def norm_dec.simps parse_radix_def
  radix_digit_def negate_def Let_def

lemmas json_eval = is_array_index_def lookup_def dq_def nl_def escape_char_def JSON_quote_def
  own_order_def brackets_def JSON_stringify_def

lemmas session_eval = customer_session_def customer_node_def customer_doc_def customer_text_def
  customer_converters_def json_converters_def resetOnNodeChange_def
  handleEdit_def handleChange_def handleCancel_def initial_fields_def
  handleSave_def save_steps_def apply_edit_def setAtPath_def coerce_def truthy_def key_of_def
  seg_key_def is_number_seg_def



subsection \<open>Reading back a printed number\<close>

lemma digit_not_space: "is_digit c \<Longrightarrow> \<not> is_ws c"
  by (auto simp: is_digit_def is_ws_def)

lemma trim_digits:
  assumes "list_all is_digit s"
  shows "trim s = s"
proof (cases s)
  case Nil
  then show ?thesis by (simp add: trim_def)
next
  case (Cons c cs)
  then have "\<not> is_ws (hd s)"
    using assms digit_not_space by simp
  then have front: "dropWhile is_ws s = s"
    using Cons by simp
  have "rev s \<noteq> []"
    using Cons by simp
  moreover have "hd (rev s) = last s"
    using Cons by (simp add: hd_rev)
  ultimately have "rev s \<noteq> []" and "hd (rev s) \<in> set s"
    using Cons last_in_set [of s] by simp_all
  then have "\<not> is_ws (hd (rev s))"
    using assms digit_not_space by (auto simp: list_all_iff)
  then have "dropWhile is_ws (rev s) = rev s"
    using \<open>rev s \<noteq> []\<close> by (cases "rev s") simp_all
  with front show ?thesis by (simp add: trim_def)
qed

lemma digits_no_prefix:
  assumes "list_all is_digit s" and "\<not> is_digit c"
  shows "take 2 s \<noteq> [d, c]"
proof
  assume "take 2 s = [d, c]"
  then have "c \<in> set (take 2 s)" by simp
  then have "c \<in> set s" by (rule in_set_takeD)
  with assms show False by (simp add: list_all_iff)
qed

lemma parse_unsigned_digits:
  assumes "list_all is_digit s" and "s \<noteq> []"
  shows "parse_unsigned_decimal s = Some (Dec (int (digits_val s)) 0)"
proof -
  have all: "takeWhile is_digit s = s" and none: "dropWhile is_digit s = []"
    using assms(1) by (simp_all add: list_all_iff)
  show ?thesis
    unfolding parse_unsigned_decimal_def Let_def all none
    using assms(2) by (simp add: parse_exponent_def scale_dec_def)
qed

text \<open>
  \<^verbatim>\<open>Number\<close> reads the decimal numeral of a natural number as that number: a numeric
  row that was projected from an integer and not edited is coerced to the same integer.
\<close>

lemma Number_show_nat: "Number (show_nat n) = Dec (int n) 0"
proof -
  let ?s = "show_nat n"
  have digits: "list_all is_digit ?s" by (rule show_nat_digits)
  have nonempty: "?s \<noteq> []" by (rule show_nat_nonempty)
  have trimmed: "trim ?s = ?s" using digits by (rule trim_digits)
  have no_radix: "take 2 ?s \<noteq> ''0x''" "take 2 ?s \<noteq> ''0X''" "take 2 ?s \<noteq> ''0o''"
    "take 2 ?s \<noteq> ''0O''" "take 2 ?s \<noteq> ''0b''" "take 2 ?s \<noteq> ''0B''"
    by (rule digits_no_prefix [OF digits], simp add: is_digit_def)+
  obtain c cs where shape: "?s = c # cs" using nonempty by (cases ?s) auto
  then have "is_digit c" using digits by simp
  then have "c \<noteq> CHR ''-''" and "c \<noteq> CHR ''+''" and "c \<noteq> CHR ''I''"
    by (auto simp: is_digit_def)
  then have unsigned: "split_sign ?s = (False, ?s)" and "?s \<noteq> ''Infinity''"
    using shape by (simp_all add: split_sign_def)
  then have "parse_decimal ?s = Dec (int (digits_val ?s)) 0"
    using parse_unsigned_digits [OF digits nonempty] by (simp add: parse_decimal_def)
  then show ?thesis
    using trimmed nonempty no_radix by (simp add: Number_def digits_val_show_nat)
qed

subsection \<open>Integer segments beyond the exact range\<close>

text \<open>
  From \<open>10^21\<close> on \<^verbatim>\<open>String(number)\<close> changes notation: the segment \<open>10^21\<close> is
  written with an exponent, bare as well.
\<close>

lemma jsonPathToString_large_segment:
  \<open>jsonPathToString (Some [SegNum 1000000000000000000000, SegStr ''k'']) = ''$[1e+21]["k"]''\<close>
  by (simp add: jsonPathToString_def number_eval dq_def)

subsection \<open>Cancelling an edit\<close>

lemma apply_changes_frame:
  "apply_changes cs st = st\<lparr> fields_state := fields_state (apply_changes cs st) \<rparr>"
proof (induction cs arbitrary: st)
  case Nil
  show ?case by simp
next
  case (Cons c cs)
  have "apply_changes (c # cs) st = apply_changes cs (handleChange (fst c) (snd c) st)"
    by simp
  also have "\<dots> = (handleChange (fst c) (snd c) st)
       \<lparr> fields_state := fields_state (apply_changes (c # cs) st) \<rparr>"
    using Cons.IH [of "handleChange (fst c) (snd c) st"] by simp
  also have "\<dots> = st\<lparr> fields_state := fields_state (apply_changes (c # cs) st) \<rparr>"
    by (simp add: handleChange_def)
  finally show ?case .
qed

lemma handleSave_nodeData: "nodeData (handleSave cv st) = nodeData st"
  by (simp add: handleSave_def split: option.splits sum.splits)

lemma apply_changes_nodeData: "nodeData (apply_changes cs st) = nodeData st"
  by (subst apply_changes_frame) simp

text \<open>
  Claim C9, as the code has it. Whatever \<^verbatim>\<open>handleChange\<close> calls follow
  \<^verbatim>\<open>handleEdit\<close> after a node was selected, \<^verbatim>\<open>handleCancel\<close> gives back the very
  state the selection left: the rows are the projection of the selected node again,
  every edit is gone, and the modal is no longer editing. A commit does not project
  again and does not change the node the modal holds: an edit that is cancelled after a
  commit restores the rows of that node as they were selected, before the commit.
\<close>

theorem handleCancel_restores_projection:
  "handleCancel (apply_changes cs (handleEdit (resetOnNodeChange st))) = resetOnNodeChange st
   \<and> fields_state (handleCancel (apply_changes cs (handleEdit (resetOnNodeChange st))))
       = initial_fields (nodeData st)
   \<and> \<not> editing (handleCancel (apply_changes cs (handleEdit (resetOnNodeChange st))))
   \<and> fields_state (handleCancel (apply_changes cs' (handleEdit (handleSave cv
         (apply_changes cs (handleEdit (resetOnNodeChange st)))))))
       = initial_fields (nodeData st)"
proof -
  let ?s = "handleEdit (resetOnNodeChange st)"
  have "apply_changes cs ?s = ?s\<lparr> fields_state := fields_state (apply_changes cs ?s) \<rparr>"
    by (rule apply_changes_frame)
  then have "handleCancel (apply_changes cs ?s)
      = handleCancel (?s\<lparr> fields_state := fields_state (apply_changes cs ?s) \<rparr>)"
    by simp
  also have "\<dots> = resetOnNodeChange st"
    by (simp add: handleCancel_def handleEdit_def resetOnNodeChange_def)
  finally have whole: "handleCancel (apply_changes cs ?s) = resetOnNodeChange st" .
  have "nodeData (apply_changes cs' (handleEdit (handleSave cv (apply_changes cs ?s))))
      = nodeData st"
    by (simp add: apply_changes_nodeData handleSave_nodeData handleEdit_def resetOnNodeChange_def)
  then have "fields_state (handleCancel (apply_changes cs' (handleEdit (handleSave cv
         (apply_changes cs ?s))))) = initial_fields (nodeData st)"
    by (simp add: handleCancel_def)
  with whole show ?thesis
    by (simp add: resetOnNodeChange_def)
qed

theorem handleCancel_restores_projection_witness:
  "fields_state (handleCancel (apply_changes [(1, ''31''), (0, ''Bob'')]
      (handleEdit (resetOnNodeChange customer_session))))
   = [\<lparr> key = Some ''name'', fvalue = ''Ann'', ftype = ''string'' \<rparr>,
      \<lparr> key = Some ''age'', fvalue = ''30'', ftype = ''number'' \<rparr>]
   \<and> fields_state (apply_changes [(1, ''31''), (0, ''Bob'')]
      (handleEdit (resetOnNodeChange customer_session)))
   = [\<lparr> key = Some ''name'', fvalue = ''Bob'', ftype = ''string'' \<rparr>,
      \<lparr> key = Some ''age'', fvalue = ''31'', ftype = ''number'' \<rparr>]
   \<and> fields_state (handleCancel (apply_changes [(0, ''Eve'')] (handleEdit
        (handleSave customer_converters (apply_changes [(1, ''31''), (0, ''Bob'')]
          (handleEdit (resetOnNodeChange customer_session)))))))
   = [\<lparr> key = Some ''name'', fvalue = ''Ann'', ftype = ''string'' \<rparr>,
      \<lparr> key = Some ''age'', fvalue = ''30'', ftype = ''number'' \<rparr>]"
  using handleCancel_restores_projection
    [of "[(1, ''31''), (0, ''Bob'')]" customer_session "[(0, ''Eve'')]" customer_converters]
  by (simp add: customer_session_def customer_node_def initial_fields_def resetOnNodeChange_def
      handleEdit_def handleChange_def number_eval)

text \<open>
  Claim C9 as stated fails after a commit. In the scenario's session the age is edited to
  31 and saved: the persisted text and the rows hold 31. A cancel after that does not give
  the rows of the committed node (the age 31) but those of the node as it was selected:
  the age is \<^verbatim>\<open>30\<close> again.
\<close>

theorem handleCancel_after_commit_counterexample:
  \<open>contents (handleSave customer_converters
       (handleChange 1 ''31'' (handleEdit (resetOnNodeChange customer_session))))
     = ''{\<newline>  "customer": {\<newline>    "name": "Ann",\<newline>    "age": 31\<newline>  }\<newline>}''
   \<and> fields_state (handleSave customer_converters
       (handleChange 1 ''31'' (handleEdit (resetOnNodeChange customer_session))))
     = [\<lparr> key = Some ''name'', fvalue = ''Ann'', ftype = ''string'' \<rparr>,
        \<lparr> key = Some ''age'', fvalue = ''31'', ftype = ''number'' \<rparr>]
   \<and> fields_state (handleCancel (handleEdit (handleSave customer_converters
       (handleChange 1 ''31'' (handleEdit (resetOnNodeChange customer_session))))))
     = [\<lparr> key = Some ''name'', fvalue = ''Ann'', ftype = ''string'' \<rparr>,
        \<lparr> key = Some ''age'', fvalue = ''30'', ftype = ''number'' \<rparr>]
   \<and> fields_state (handleCancel (handleEdit (handleSave customer_converters
       (handleChange 1 ''31'' (handleEdit (resetOnNodeChange customer_session))))))
     \<noteq> initial_fields (Some (customer_node\<lparr> node_text :=
         [\<lparr> row_key = Some ''name'', row_value = JStr ''Ann'', row_type = ''string'' \<rparr>,
          \<lparr> row_key = Some ''age'', row_value = JNum (Dec 31 0), row_type = ''number'' \<rparr>] \<rparr>))\<close>
  by (simp add: session_eval number_eval json_eval)


subsection \<open>Saving is all or nothing\<close>

text \<open>
  Claim C1. With a node selected, \<^verbatim>\<open>handleSave\<close> leaves the persisted text exactly as
  it was whenever a step throws: the parse (\<^verbatim>\<open>contentToJson\<close>), the resolution of the
  path and the merge of the rows (\<open>apply_edit\<close>), or the conversion of the serialized
  document (\<^verbatim>\<open>jsonToContent\<close>). The \<^verbatim>\<open>catch\<close> surfaces the failure once, as the
  toast \<^verbatim>\<open>Failed to save changes\<close>, with the exception that caused it logged. The
  text is replaced only when every step has succeeded, by the result of the last one.
\<close>

theorem handleSave_all_or_nothing:
  assumes "nodeData st = Some nd"
  shows "(\<forall>e. contentToJson cv (contents st) (format st) = Inl e
            \<longrightarrow> handleSave cv st = st\<lparr> console := console st @ [e],
                     toasts := toasts st @ [ToastError ''Failed to save changes''] \<rparr>
                \<and> contents (handleSave cv st) = contents st)
     \<and> (\<forall>json e. contentToJson cv (contents st) (format st) = Inr json
              \<and> apply_edit nd (fields_state st) json = Inl e
            \<longrightarrow> handleSave cv st = st\<lparr> console := console st @ [e],
                     toasts := toasts st @ [ToastError ''Failed to save changes''] \<rparr>
                \<and> contents (handleSave cv st) = contents st)
     \<and> (\<forall>json json' e. contentToJson cv (contents st) (format st) = Inr json
              \<and> apply_edit nd (fields_state st) json = Inr json'
              \<and> jsonToContent cv (JSON_stringify json') (format st) = Inl e
            \<longrightarrow> handleSave cv st = st\<lparr> console := console st @ [e],
                     toasts := toasts st @ [ToastError ''Failed to save changes''] \<rparr>
                \<and> contents (handleSave cv st) = contents st)
     \<and> (\<forall>json json' out. contentToJson cv (contents st) (format st) = Inr json
              \<and> apply_edit nd (fields_state st) json = Inr json'
              \<and> jsonToContent cv (JSON_stringify json') (format st) = Inr out
            \<longrightarrow> handleSave cv st = st\<lparr> contents := out, editing := False,
                     toasts := toasts st @ [ToastSuccess ''Saved changes''] \<rparr>)
     \<and> (contents (handleSave cv st) \<noteq> contents st
            \<longrightarrow> (\<exists>json json' out. contentToJson cv (contents st) (format st) = Inr json
                  \<and> apply_edit nd (fields_state st) json = Inr json'
                  \<and> jsonToContent cv (JSON_stringify json') (format st) = Inr out
                  \<and> contents (handleSave cv st) = out))"
proof (intro conjI allI impI)
  fix e
  assume "contentToJson cv (contents st) (format st) = Inl e"
  with assms show "handleSave cv st = st\<lparr> console := console st @ [e],
      toasts := toasts st @ [ToastError ''Failed to save changes''] \<rparr>"
    and "contents (handleSave cv st) = contents st"
    by (simp_all add: handleSave_def save_steps_def)
next
  fix json e
  assume "contentToJson cv (contents st) (format st) = Inr json
    \<and> apply_edit nd (fields_state st) json = Inl e"
  with assms show "handleSave cv st = st\<lparr> console := console st @ [e],
      toasts := toasts st @ [ToastError ''Failed to save changes''] \<rparr>"
    and "contents (handleSave cv st) = contents st"
    by (simp_all add: handleSave_def save_steps_def)
next
  fix json json' e
  assume "contentToJson cv (contents st) (format st) = Inr json
    \<and> apply_edit nd (fields_state st) json = Inr json'
    \<and> jsonToContent cv (JSON_stringify json') (format st) = Inl e"
  with assms show "handleSave cv st = st\<lparr> console := console st @ [e],
      toasts := toasts st @ [ToastError ''Failed to save changes''] \<rparr>"
    and "contents (handleSave cv st) = contents st"
    by (simp_all add: handleSave_def save_steps_def)
next
  fix json json' out
  assume "contentToJson cv (contents st) (format st) = Inr json
    \<and> apply_edit nd (fields_state st) json = Inr json'
    \<and> jsonToContent cv (JSON_stringify json') (format st) = Inr out"
  with assms show "handleSave cv st = st\<lparr> contents := out, editing := False,
      toasts := toasts st @ [ToastSuccess ''Saved changes''] \<rparr>"
    by (simp add: handleSave_def save_steps_def)
next
  assume changed: "contents (handleSave cv st) \<noteq> contents st"
  show "\<exists>json json' out. contentToJson cv (contents st) (format st) = Inr json
      \<and> apply_edit nd (fields_state st) json = Inr json'
      \<and> jsonToContent cv (JSON_stringify json') (format st) = Inr out
      \<and> contents (handleSave cv st) = out"
    using assms changed
    by (auto simp add: handleSave_def save_steps_def split: sum.splits)
qed

text \<open>
  The theorem at three inputs: a text the converter rejects, the scenario's session
  with a node whose path leads to nothing in the document, and the scenario's session
  with the age edited, where every step succeeds.
\<close>

theorem handleSave_all_or_nothing_witness:
  \<open>contents (handleSave customer_converters (customer_session\<lparr> contents := ''{'' \<rparr>)) = ''{''
   \<and> toasts (handleSave customer_converters (customer_session\<lparr> contents := ''{'' \<rparr>))
       = [ToastError ''Failed to save changes'']
   \<and> console (handleSave customer_converters (customer_session\<lparr> contents := ''{'' \<rparr>))
       = [ConverterError ''not the text of the scenario'']
   \<and> handleSave customer_converters
        (customer_session\<lparr> nodeData := Some (customer_node\<lparr> node_path := Some [SegStr ''client''] \<rparr>),
                           fields_state := [\<lparr> key = Some ''age'', fvalue = ''31'', ftype = ''number'' \<rparr>] \<rparr>)
       = customer_session\<lparr> nodeData := Some (customer_node\<lparr> node_path := Some [SegStr ''client''] \<rparr>),
                           fields_state := [\<lparr> key = Some ''age'', fvalue = ''31'', ftype = ''number'' \<rparr>],
                           toasts := [ToastError ''Failed to save changes''],
                           console := [TypeError] \<rparr>
   \<and> contents (handleSave customer_converters
                (handleChange 1 ''31'' (handleEdit (resetOnNodeChange customer_session))))
       = ''{\<newline>  "customer": {\<newline>    "name": "Ann",\<newline>    "age": 31\<newline>  }\<newline>}''\<close>
  using handleSave_all_or_nothing
    [of "customer_session\<lparr> contents := ''{'' \<rparr>" customer_node customer_converters]
    handleSave_all_or_nothing
    [of "handleChange 1 ''31'' (handleEdit (resetOnNodeChange customer_session))"
        customer_node customer_converters]
    handleSave_all_or_nothing
    [of "customer_session\<lparr> nodeData := Some (customer_node\<lparr> node_path := Some [SegStr ''client''] \<rparr>),
                           fields_state := [\<lparr> key = Some ''age'', fvalue = ''31'', ftype = ''number'' \<rparr>] \<rparr>"
        "customer_node\<lparr> node_path := Some [SegStr ''client''] \<rparr>" customer_converters]
  by (simp add: session_eval number_eval json_eval)


subsection \<open>A change at an index that is not there\<close>

lemma map_enumerate_unchanged:
  assumes "\<And>i. n \<le> i \<Longrightarrow> i < n + length xs \<Longrightarrow> \<not> P i"
  shows "map (\<lambda>(i, f). if P i then g f else f) (enumerate n xs) = xs"
  using assms
proof (induction xs arbitrary: n)
  case Nil
  show ?case by simp
next
  case (Cons x xs)
  have "\<not> P n" using Cons.prems [of n] by simp
  moreover have "map (\<lambda>(i, f). if P i then g f else f) (enumerate (Suc n) xs) = xs"
    using Cons.prems by (intro Cons.IH) simp_all
  ultimately show ?case by simp
qed

text \<open>
  Claim C8, as the code has it. \<^verbatim>\<open>handleChange\<close> at an index outside the rows raises
  nothing and changes nothing: the state is the one before the call, so a commit after it
  is the commit without it.
\<close>

theorem handleChange_out_of_range:
  assumes "index < 0 \<or> int (length (fields_state st)) \<le> index"
  shows "handleChange index v st = st
         \<and> handleSave cv (handleChange index v st) = handleSave cv st"
proof -
  have "map (\<lambda>(i, f). if int i = index then f\<lparr> fvalue := v \<rparr> else f)
          (enumerate 0 (fields_state st)) = fields_state st"
    using assms by (intro map_enumerate_unchanged) auto
  then have "handleChange index v st = st"
    by (simp add: handleChange_def)
  then show ?thesis by simp
qed

theorem handleChange_out_of_range_witness:
  "handleChange 7 ''zzz'' (handleChange 1 ''31'' (handleEdit (resetOnNodeChange customer_session)))
     = handleChange 1 ''31'' (handleEdit (resetOnNodeChange customer_session))
   \<and> handleChange (- 1) ''zzz'' (handleEdit (resetOnNodeChange customer_session))
     = handleEdit (resetOnNodeChange customer_session)"
  using handleChange_out_of_range
          [of 7 "handleChange 1 ''31'' (handleEdit (resetOnNodeChange customer_session))" "''zzz''" customer_converters]
        handleChange_out_of_range
          [of "- 1" "handleEdit (resetOnNodeChange customer_session)" "''zzz''" customer_converters]
  by (simp add: session_eval number_eval)

text \<open>
  Claim C8 as stated fails: in the scenario's session, with the age already edited to 31,
  a change at index 7 returns the state it was given, no error, and the commit after it
  succeeds and replaces the persisted text.
\<close>

theorem handleChange_out_of_range_counterexample:
  \<open>handleChange 7 ''zzz'' (handleChange 1 ''31'' (handleEdit (resetOnNodeChange customer_session)))
     = handleChange 1 ''31'' (handleEdit (resetOnNodeChange customer_session))
   \<and> toasts (handleSave customer_converters
        (handleChange 7 ''zzz'' (handleChange 1 ''31'' (handleEdit (resetOnNodeChange customer_session)))))
     = [ToastSuccess ''Saved changes'']
   \<and> contents (handleSave customer_converters
        (handleChange 7 ''zzz'' (handleChange 1 ''31'' (handleEdit (resetOnNodeChange customer_session)))))
     = ''{\<newline>  "customer": {\<newline>    "name": "Ann",\<newline>    "age": 31\<newline>  }\<newline>}''
   \<and> contents (handleChange 1 ''31'' (handleEdit (resetOnNodeChange customer_session)))
     = ''{"customer": {"name": "Ann", "age": 30}}''\<close>
  by (simp add: session_eval number_eval json_eval)


subsection \<open>References into the document\<close>

lemma replace_own_same: "getProp c k = Inr child \<Longrightarrow> replace_own c k child = c"
  by (cases c) (auto simp: lookup_def AList.update_triv split: option.splits if_splits)

text \<open>Storing back what was read changes nothing.\<close>

lemma store_back_resolved: "resolve_parent json p = Inr v \<Longrightarrow> store_back json p v = json"
proof (induction p arbitrary: json)
  case Nil
  then show ?case by simp
next
  case (Cons sg rest)
  then obtain child where child: "getProp json (seg_key sg) = Inr child"
    and rest: "resolve_parent child rest = Inr v"
    by (auto split: sum.splits)
  from rest have "store_back child rest v = child" by (rule Cons.IH)
  with child show ?case by (simp add: replace_own_same)
qed



lemma setProp_result_container: "setProp c k x = Inr c' \<Longrightarrow> is_container c'"
  by (cases c) (auto simp: is_container_def)





subsection \<open>Path resolution\<close>













subsection \<open>Coercion and merge\<close>


lemma merge_fields_keyed:
  "truthy (key f) \<Longrightarrow>
     merge_fields (JObj ps) (f # fs)
       = merge_fields (JObj (AList.update (key_of (key f)) (coerce f) ps)) fs"
  by simp


subsection \<open>The scenario of the specification\<close>

text \<open>
  Claim C2. In the scenario's session (the document
  \<^verbatim>\<open>{"customer": {"name": "Ann", "age": 30}}\<close>, the node at \<^verbatim>\<open>["customer"]\<close>
  selected), editing the row \<^verbatim>\<open>age\<close> to the text \<^verbatim>\<open>31\<close> and saving turns the
  parsed document into \<^verbatim>\<open>{"customer": {"name": "Ann", "age": 31}}\<close>: the age is the
  number 31 and the name is as it was. That document is serialized and, once converted,
  replaces the persisted text.
\<close>

theorem customer_age_commit:
  assumes "contentToJson cv customer_text ''json'' = Inr customer_doc"
  shows \<open>apply_edit customer_node
            (fields_state (handleChange 1 ''31'' (handleEdit (resetOnNodeChange customer_session))))
            customer_doc
          = Inr (JObj [(''customer'', JObj [(''name'', JStr ''Ann''), (''age'', JNum (Dec 31 0))])])
     \<and> JSON_stringify (JObj [(''customer'', JObj [(''name'', JStr ''Ann''), (''age'', JNum (Dec 31 0))])])
          = Some ''{\<newline>  "customer": {\<newline>    "name": "Ann",\<newline>    "age": 31\<newline>  }\<newline>}''
     \<and> (\<forall>out. jsonToContent cv
                  (Some ''{\<newline>  "customer": {\<newline>    "name": "Ann",\<newline>    "age": 31\<newline>  }\<newline>}'') ''json''
                = Inr out
            \<longrightarrow> handleSave cv (handleChange 1 ''31'' (handleEdit (resetOnNodeChange customer_session)))
                = (handleChange 1 ''31'' (handleEdit (resetOnNodeChange customer_session)))
                    \<lparr> contents := out, editing := False,
                      toasts := [ToastSuccess ''Saved changes''] \<rparr>)\<close>
  using assms by (simp add: session_eval number_eval json_eval)

theorem customer_age_commit_witness:
  \<open>contents (handleSave customer_converters
               (handleChange 1 ''31'' (handleEdit (resetOnNodeChange customer_session))))
     = ''{\<newline>  "customer": {\<newline>    "name": "Ann",\<newline>    "age": 31\<newline>  }\<newline>}''
   \<and> toasts (handleSave customer_converters
               (handleChange 1 ''31'' (handleEdit (resetOnNodeChange customer_session))))
     = [ToastSuccess ''Saved changes'']\<close>
  using customer_age_commit [of customer_converters]
  by (simp add: session_eval number_eval json_eval)

subsection \<open>A number row whose text is no number\<close>















subsection \<open>A row whose key is the empty string\<close>

text \<open>
  Claim C7 at a row whose key is the empty string. The document is \<^verbatim>\<open>{"": 5, "b": "y"}\<close>
  with its root object selected; the row of the key \<^verbatim>\<open>""\<close> is edited to \<^verbatim>\<open>6\<close> and
  the row \<^verbatim>\<open>b\<close> to \<^verbatim>\<open>z\<close>. The guard \<^verbatim>\<open>if (f.key)\<close> takes the empty key for no
  key: the save reports success, \<^verbatim>\<open>b\<close> is stored and the other edit is dropped.
\<close>

theorem empty_key_row_is_skipped:
  \<open>fields_state (handleChange 1 ''z'' (handleChange 0 ''6'' (handleEdit (resetOnNodeChange
       \<lparr> nodeData = Some \<lparr> node_text =
                             [\<lparr> row_key = Some '''', row_value = JNum (Dec 5 0), row_type = ''number'' \<rparr>,
                              \<lparr> row_key = Some ''b'', row_value = JStr ''y'', row_type = ''string'' \<rparr>],
                           node_path = Some [] \<rparr>,
         editing = False, fields_state = [], contents = ''{"": 5, "b": "y"}'', format = ''json'',
         toasts = [], console = [] \<rparr>))))
     = [\<lparr> key = Some '''', fvalue = ''6'', ftype = ''number'' \<rparr>,
        \<lparr> key = Some ''b'', fvalue = ''z'', ftype = ''string'' \<rparr>]
   \<and> merge_fields (JObj [('''', JNum (Dec 5 0)), (''b'', JStr ''y'')])
        [\<lparr> key = Some '''', fvalue = ''6'', ftype = ''number'' \<rparr>,
         \<lparr> key = Some ''b'', fvalue = ''z'', ftype = ''string'' \<rparr>]
     = Inr (JObj [('''', JNum (Dec 5 0)), (''b'', JStr ''z'')])
   \<and> handleSave (json_converters ''{"": 5, "b": "y"}'' (JObj [('''', JNum (Dec 5 0)), (''b'', JStr ''y'')]))
       (handleChange 1 ''z'' (handleChange 0 ''6'' (handleEdit (resetOnNodeChange
       \<lparr> nodeData = Some \<lparr> node_text =
                             [\<lparr> row_key = Some '''', row_value = JNum (Dec 5 0), row_type = ''number'' \<rparr>,
                              \<lparr> row_key = Some ''b'', row_value = JStr ''y'', row_type = ''string'' \<rparr>],
                           node_path = Some [] \<rparr>,
         editing = False, fields_state = [], contents = ''{"": 5, "b": "y"}'', format = ''json'',
         toasts = [], console = [] \<rparr>))))
     = \<lparr> nodeData = Some \<lparr> node_text =
                             [\<lparr> row_key = Some '''', row_value = JNum (Dec 5 0), row_type = ''number'' \<rparr>,
                              \<lparr> row_key = Some ''b'', row_value = JStr ''y'', row_type = ''string'' \<rparr>],
                           node_path = Some [] \<rparr>,
         editing = False,
         fields_state = [\<lparr> key = Some '''', fvalue = ''6'', ftype = ''number'' \<rparr>,
                         \<lparr> key = Some ''b'', fvalue = ''z'', ftype = ''string'' \<rparr>],
         contents = ''{\<newline>  "": 5,\<newline>  "b": "z"\<newline>}'', format = ''json'',
         toasts = [ToastSuccess ''Saved changes''], console = [] \<rparr>\<close>
  by (simp add: session_eval number_eval json_eval)

subsection \<open>A scalar at the root\<close>

text \<open>
  Claim C10. For a node that is one row without a key and whose path is empty or absent,
  \<^verbatim>\<open>setAtPath\<close> returns the new value and leaves the object it was given alone, and
  \<^verbatim>\<open>handleSave\<close> drops what it returns: the edit leaves the parsed document as it
  was, whatever the text of the row. The save serializes that document and reports
  success, so the edit is lost.
\<close>

theorem root_scalar_edit_is_lost:
  assumes "nodeData st = Some nd" and "node_text nd = [r]" and "row_key r = None"
    and "node_path nd = None \<or> node_path nd = Some []"
    and "fields_state st = f # fs"
    and "contentToJson cv (contents st) (format st) = Inr json"
  shows "setAtPath json [] (coerce f) = Inr (json, coerce f)
     \<and> apply_edit nd (fields_state st) json = Inr json
     \<and> (\<forall>out. jsonToContent cv (JSON_stringify json) (format st) = Inr out
            \<longrightarrow> handleSave cv st
                = st\<lparr> contents := out, editing := False,
                      toasts := toasts st @ [ToastSuccess ''Saved changes''] \<rparr>)"
proof -
  have set: "setAtPath json [] (coerce f) = Inr (json, coerce f)"
    by (simp add: setAtPath_def)
  have path: "(case node_path nd of None \<Rightarrow> [] | Some p \<Rightarrow> p) = []"
    using assms(4) by auto
  have edit: "apply_edit nd (fields_state st) json = Inr json"
    using assms(2,3,5) set path by (simp add: apply_edit_def truthy_def)
  have "handleSave cv st
      = st\<lparr> contents := out, editing := False,
            toasts := toasts st @ [ToastSuccess ''Saved changes''] \<rparr>"
    if "jsonToContent cv (JSON_stringify json) (format st) = Inr out" for out
    using that assms(1,6) edit by (simp add: handleSave_def save_steps_def)
  with set edit show ?thesis by blast
qed

theorem root_scalar_edit_is_lost_witness:
  "handleSave (json_converters ''5'' (JNum (Dec 5 0)))
     \<lparr> nodeData = Some \<lparr> node_text = [\<lparr> row_key = None, row_value = JNum (Dec 5 0),
                                        row_type = ''number'' \<rparr>],
                         node_path = Some [] \<rparr>,
       editing = True, fields_state = [\<lparr> key = None, fvalue = ''6'', ftype = ''number'' \<rparr>],
       contents = ''5'', format = ''json'', toasts = [], console = [] \<rparr>
   = \<lparr> nodeData = Some \<lparr> node_text = [\<lparr> row_key = None, row_value = JNum (Dec 5 0),
                                        row_type = ''number'' \<rparr>],
                         node_path = Some [] \<rparr>,
       editing = False, fields_state = [\<lparr> key = None, fvalue = ''6'', ftype = ''number'' \<rparr>],
       contents = ''5'', format = ''json'', toasts = [ToastSuccess ''Saved changes''],
       console = [] \<rparr>"
  using root_scalar_edit_is_lost
    [of "\<lparr> nodeData = Some \<lparr> node_text = [\<lparr> row_key = None, row_value = JNum (Dec 5 0),
                                        row_type = ''number'' \<rparr>],
                         node_path = Some [] \<rparr>,
       editing = True, fields_state = [\<lparr> key = None, fvalue = ''6'', ftype = ''number'' \<rparr>],
       contents = ''5'', format = ''json'', toasts = [], console = [] \<rparr>"
      "\<lparr> node_text = [\<lparr> row_key = None, row_value = JNum (Dec 5 0), row_type = ''number'' \<rparr>],
         node_path = Some [] \<rparr>"
      "\<lparr> row_key = None, row_value = JNum (Dec 5 0), row_type = ''number'' \<rparr>"
      "\<lparr> key = None, fvalue = ''6'', ftype = ''number'' \<rparr>" "[]"
      "json_converters ''5'' (JNum (Dec 5 0))" "JNum (Dec 5 0)"]
  by (simp add: truthy_def json_converters_def number_eval json_eval)


subsection \<open>The displayed form of a node\<close>





text \<open>
  Two rows of one key make one member, at the place of the first row and with the value
  of the last: the general statement below is for rows of different keys.
\<close>

lemma normalizeNodeData_repeated_key:
  \<open>normalizeNodeData
      [\<lparr> row_key = Some ''a'', row_value = JStr ''1'', row_type = ''string'' \<rparr>,
       \<lparr> row_key = Some ''b'', row_value = JStr ''x'', row_type = ''string'' \<rparr>,
       \<lparr> row_key = Some ''a'', row_value = JStr ''2'', row_type = ''string'' \<rparr>]
     = ''{\<newline>  "a": "2",\<newline>  "b": "x"\<newline>}''\<close>
  by (simp add: normalizeNodeData_def assign_literal_def truthy_def key_of_def json_eval number_eval)



end
